theory Spec2Isabelle
  imports Main
begin

text \<open>
  A model of the two React Native components \<^verbatim>\<open>SocialMediaPlayer.tsx\<close> and
  \<^verbatim>\<open>UniversalVideoPlayer.tsx\<close>. Each component is a state record, one function per
  handler or effect that takes the state and returns the new state together with
  the callbacks it invoked, and a render function from the state to the view shown.
  Timers are part of the state: a handler that calls \<^verbatim>\<open>setTimeout\<close> marks a timer as
  pending, and the timer firing is an event of its own.
\<close>

section \<open>JavaScript values used by the two components\<close>

text \<open>
  A value of type \<^verbatim>\<open>string | null\<close> (or an optional string) is a \<open>string option\<close>.
  JavaScript treats \<^verbatim>\<open>null\<close>, \<^verbatim>\<open>undefined\<close> and the empty string as falsy, which is
  what \<^verbatim>\<open>!embedUrl\<close>, \<^verbatim>\<open>error ? ... : ...\<close>, \<^verbatim>\<open>url && ...\<close> and \<^verbatim>\<open>a || b\<close> test.
\<close>

definition js_truthy :: "string option \<Rightarrow> bool" where
  "js_truthy v = (case v of None \<Rightarrow> False | Some s \<Rightarrow> s \<noteq> [])"

text \<open>\<^verbatim>\<open>a || b\<close> on an optional string \<open>a\<close> and a string literal \<open>b\<close>.\<close>

definition js_or :: "string option \<Rightarrow> string \<Rightarrow> string" where
  "js_or a b = (case a of None \<Rightarrow> b | Some s \<Rightarrow> if s = [] then b else s)"

text \<open>
  \<^verbatim>\<open>String.prototype.trim\<close> removes white space and line terminators from both ends.
  Among the code units a \<open>char\<close> can hold these are TAB, LF, VT, FF, CR, SPACE and
  NBSP. The others (U+1680, U+2000 to U+200A, U+2028, U+2029, U+202F, U+205F, U+3000
  and U+FEFF) are above U+00FF, and a \<open>string\<close> cannot contain them.
\<close>

definition is_js_whitespace :: "char \<Rightarrow> bool" where
  "is_js_whitespace c =
     (c \<in> set [CHR 0x09, CHR 0x0A, CHR 0x0B, CHR 0x0C, CHR 0x0D, CHR 0x20, CHR 0xA0])"

definition js_trim :: "string \<Rightarrow> string" where
  "js_trim s = rev (dropWhile is_js_whitespace (rev (dropWhile is_js_whitespace s)))"

text \<open>Decimal rendering of an integer inside a template literal.\<close>

fun show_nat :: "nat \<Rightarrow> string" where
  "show_nat n =
     (if n < 10 then [''0123456789'' ! n]
      else show_nat (n div 10) @ [''0123456789'' ! (n mod 10)])"

definition show_int :: "int \<Rightarrow> string" where
  "show_int i = (if i < 0 then CHR ''-'' # show_nat (nat (- i)) else show_nat (nat i))"

text \<open>An uncaught exception: reading a property of \<^verbatim>\<open>undefined\<close>.\<close>

datatype js_exception = TypeError


section \<open>Data model\<close>

text \<open>
  The modules \<^verbatim>\<open>@/utils/socialMediaPlayer\<close> and \<^verbatim>\<open>@/utils/videoSourceDetector\<close> are
  imported by both components. Their three functions are parameters of the model,
  collected in the record \<open>utils\<close>; the records below are the shapes the components
  read from their results.
\<close>

record embed_strategy =
  name :: string
  getEmbedUrl :: "string \<Rightarrow> string option"

record social_media_config =
  platform :: string
  embedStrategies :: "embed_strategy list"

record source_info =
  src_type :: string
  src_platform :: string
  requiresWebView :: bool
  videoId :: "string option"
  requiresAgeVerification :: bool

record eligibility =
  canPlay :: bool
  reason :: "string option"

record utils =
  detectVideoSource :: "string \<Rightarrow> source_info"
  canPlayVideo :: "string \<Rightarrow> string \<Rightarrow> eligibility"
  getSocialMediaConfig :: "string \<Rightarrow> social_media_config option"

text \<open>
  Props. The fields \<open>onError\<close>, \<open>onLoad\<close>, ... say whether the optional callback was
  supplied; what a supplied callback is called with is recorded as an effect.
  \<open>tier\<close> is the result of the \<^verbatim>\<open>useMembership\<close> hook.
\<close>

record player_props =
  url :: string
  onError :: bool
  onPlaybackStart :: bool
  maxRetries :: int

record smp_props = player_props +
  onLoad :: bool
  autoRetry :: bool

record uvp_props = player_props +
  onAgeVerificationRequired :: bool
  autoPlay :: bool
  tier :: string

text \<open>
  Component state: the \<^verbatim>\<open>useState\<close> variables and the timer references. Both
  components have \<open>isLoading\<close> and \<open>retryCount\<close>.
\<close>

record player_state =
  isLoading :: bool
  retryCount :: int

text \<open>
  \<open>retryTimeoutRef\<close> is \<open>True\<close> while the timer stored in the reference is pending.
\<close>

record smp_state = player_state +
  error :: "string option"
  currentStrategyIndex :: nat
  embedUrl :: "string option"
  retryTimeoutRef :: bool

text \<open>
  Effects a handler has on its surroundings: calls of the callbacks passed as props,
  and \<open>TryingStrategy i\<close>, which records that the strategy at index \<open>i\<close> was asked for
  its embed URL. SocialMediaPlayer reports strings. Two of the messages of
  UniversalVideoPlayer are fixed templates in Chinese (lines 433 and 450), which
  have a constructor each: the first is filled with \<open>maxRetries\<close>, the second with the
  platform name.
\<close>

datatype 'm effect =
    OnError 'm
  | OnLoad
  | OnPlaybackStart
  | OnAgeVerificationRequired
  | TryingStrategy nat

datatype message =
    Text string
  | YouTubeLoadFailed int
  | PlatformLoadFailed string

type_synonym smp_effect = "string effect"
type_synonym uvp_effect = "message effect"

text \<open>
  \<open>loadTimeoutRef\<close> is \<open>Some n\<close> while the load timer is pending, where \<open>n\<close> is the
  \<open>retryCount\<close> seen by the \<open>handleLoadTimeout\<close> closure the timer was given; \<open>retryTimers\<close>
  counts the pending retry timers, which the component neither stores nor cancels.
\<close>

record uvp_state = player_state +
  playbackError :: "message option"
  loadTimeoutRef :: "int option"
  retryTimers :: nat


section \<open>SocialMediaPlayer\<close>

definition smp_initial :: smp_state where
  "smp_initial =
     \<lparr>isLoading = True, retryCount = 0, error = None, currentStrategyIndex = 0,
      embedUrl = None, retryTimeoutRef = False\<rparr>"

text \<open>\<^verbatim>\<open>onError?.(msg)\<close>\<close>

definition call_onError :: "'a player_props_scheme \<Rightarrow> 'm \<Rightarrow> 'm effect list" where
  "call_onError p msg = (if onError p then [OnError msg] else [])"

text \<open>\<open>tryNextStrategy\<close> (lines 53-83).\<close>

definition tryNextStrategy :: "utils \<Rightarrow> smp_props \<Rightarrow> smp_state \<Rightarrow> smp_state \<times> smp_effect list" where
  "tryNextStrategy U p s =
     (case getSocialMediaConfig U (url p) of
        None \<Rightarrow>
          (s\<lparr>error := Some ''Unsupported social media platform''\<rparr>,
           call_onError p ''Unsupported social media platform'')
      | Some config \<Rightarrow>
          if length (embedStrategies config) \<le> currentStrategyIndex s then
            (let errorMsg = ''Failed to load '' @ platform config @ '' video after trying all strategies''
             in (s\<lparr>error := Some errorMsg, isLoading := False\<rparr>, call_onError p errorMsg))
          else
            (let strategy = embedStrategies config ! currentStrategyIndex s;
                 newEmbedUrl = getEmbedUrl strategy (url p)
             in if \<not> js_truthy newEmbedUrl then
                  (s\<lparr>currentStrategyIndex := currentStrategyIndex s + 1\<rparr>,
                   [TryingStrategy (currentStrategyIndex s)])
                else
                  (s\<lparr>embedUrl := newEmbedUrl, isLoading := True, error := None\<rparr>,
                   [TryingStrategy (currentStrategyIndex s)])))"

text \<open>The effect that runs once, on mount (lines 85-95).\<close>

definition mount_effect :: "utils \<Rightarrow> smp_props \<Rightarrow> smp_state \<Rightarrow> smp_state \<times> smp_effect list" where
  "mount_effect U p s =
     (case getSocialMediaConfig U (url p) of
        None \<Rightarrow>
          (s\<lparr>error := Some ''Unsupported social media platform''\<rparr>,
           call_onError p ''Unsupported social media platform'')
      | Some config \<Rightarrow> tryNextStrategy U p s)"

text \<open>The effect that depends on \<open>currentStrategyIndex\<close> (lines 97-102).\<close>

definition index_effect :: "utils \<Rightarrow> smp_props \<Rightarrow> smp_state \<Rightarrow> smp_state \<times> smp_effect list" where
  "index_effect U p s =
     (if 0 < currentStrategyIndex s \<and> getSocialMediaConfig U (url p) \<noteq> None
      then tryNextStrategy U p s else (s, []))"

text \<open>
  \<^verbatim>\<open>config.embedStrategies[currentStrategyIndex]\<close> is \<^verbatim>\<open>undefined\<close> when the index is
  out of range, and reading \<^verbatim>\<open>strategy.name\<close> then throws.
\<close>

definition strategy_at :: "social_media_config \<Rightarrow> nat \<Rightarrow> js_exception + embed_strategy" where
  "strategy_at config i =
     (if i < length (embedStrategies config) then Inr (embedStrategies config ! i)
      else Inl TypeError)"

text \<open>
  What the component renders (lines 199-302). The error view carries its message, the
  "tried i/n" line, and whether the retry button and the max-retries notice are shown.
\<close>

datatype smp_view =
    UnsupportedPlatformView
  | PlaybackFailedView (shown_error: "string option") (tried: nat) (total: nat)
      (retryButton: bool) (maxRetriesNotice: bool)
  | WebViewSurface (uri: string) (strategyName: string) (loadingOverlay: bool)

definition smp_renderError :: "utils \<Rightarrow> smp_props \<Rightarrow> smp_state \<Rightarrow> smp_view" where
  "smp_renderError U p s =
     (case getSocialMediaConfig U (url p) of
        None \<Rightarrow> UnsupportedPlatformView
      | Some config \<Rightarrow>
          PlaybackFailedView (error s) (currentStrategyIndex s + 1)
            (length (embedStrategies config))
            (retryCount s < maxRetries p) (maxRetries p \<le> retryCount s))"

definition SocialMediaPlayer :: "utils \<Rightarrow> smp_props \<Rightarrow> smp_state \<Rightarrow> js_exception + smp_view" where
  "SocialMediaPlayer U p s =
     (case getSocialMediaConfig U (url p) of
        None \<Rightarrow> Inr (smp_renderError U p s)
      | Some config \<Rightarrow>
          if \<not> js_truthy (embedUrl s) then Inr (smp_renderError U p s)
          else
            (case strategy_at config (currentStrategyIndex s) of
               Inl e \<Rightarrow> Inl e
             | Inr strategy \<Rightarrow>
                 if js_truthy (error s) then Inr (smp_renderError U p s)
                 else Inr (WebViewSurface (the (embedUrl s)) (name strategy) (isLoading s))))"

text \<open>
  Every state update is followed by a render, and the render throws when an embed
  URL is stored and the index is out of range (lines 239-242); the component is then
  gone and no effect runs. After a render in which \<open>currentStrategyIndex\<close> has
  changed the index effect runs; its own update is rendered in turn, and if it
  changed the index again the effect runs again.
\<close>

function index_effect_chain :: "utils \<Rightarrow> smp_props \<Rightarrow> smp_state
    \<Rightarrow> js_exception + smp_state \<times> smp_effect list" where
  "index_effect_chain U p s =
     (let r = index_effect U p s in
      case SocialMediaPlayer U p (fst r) of
        Inl e \<Rightarrow> Inl e
      | Inr view \<Rightarrow>
          if currentStrategyIndex (fst r) = currentStrategyIndex s then Inr r
          else (case index_effect_chain U p (fst r) of
                  Inl e \<Rightarrow> Inl e
                | Inr r' \<Rightarrow> Inr (fst r', snd r @ snd r')))"
  by pat_completeness auto
termination
  by (relation "measure (\<lambda>(U, p, s).
        case getSocialMediaConfig U (url p) of
          None \<Rightarrow> 0
        | Some c \<Rightarrow> length (embedStrategies c) - currentStrategyIndex s)")
     (auto simp: index_effect_def tryNextStrategy_def Let_def
           split: option.splits if_splits)

declare index_effect_chain.simps [simp del]

text \<open>
  A state update made by an effect, a handler or a timer, from the state \<open>old\<close>: the
  new state is rendered, and when the index has changed the index effect chain
  follows.
\<close>

definition after_update :: "utils \<Rightarrow> smp_props \<Rightarrow> smp_state \<Rightarrow> smp_state \<times> smp_effect list
    \<Rightarrow> js_exception + smp_state \<times> smp_effect list" where
  "after_update U p old r =
     (case SocialMediaPlayer U p (fst r) of
        Inl e \<Rightarrow> Inl e
      | Inr view \<Rightarrow>
          if currentStrategyIndex (fst r) = currentStrategyIndex old then Inr r
          else (case index_effect_chain U p (fst r) of
                  Inl e \<Rightarrow> Inl e
                | Inr r' \<Rightarrow> Inr (fst r', snd r @ snd r')))"

text \<open>
  Mounting: both effects run after the first render (the index effect sees index 0
  and does nothing), then the chain follows if the mount effect moved the index.
\<close>

definition smp_mount :: "utils \<Rightarrow> smp_props \<Rightarrow> js_exception + smp_state \<times> smp_effect list" where
  "smp_mount U p = after_update U p smp_initial (mount_effect U p smp_initial)"

text \<open>Handlers of the embedded browser surface (lines 112-197).\<close>

definition handleLoadStart :: "smp_state \<Rightarrow> smp_state" where
  "handleLoadStart s = s\<lparr>isLoading := True\<rparr>"

definition handleLoadEnd :: "utils \<Rightarrow> smp_props \<Rightarrow> smp_state
    \<Rightarrow> js_exception + smp_state \<times> smp_effect list" where
  "handleLoadEnd U p s =
     (let done = (s\<lparr>isLoading := False\<rparr>,
                  (if onLoad p then [OnLoad] else []) @
                  (if onPlaybackStart p then [OnPlaybackStart] else []))
      in case getSocialMediaConfig U (url p) of
           None \<Rightarrow> Inr done
         | Some config \<Rightarrow>
             (case strategy_at config (currentStrategyIndex s) of
                Inl e \<Rightarrow> Inl e
              | Inr strategy \<Rightarrow> Inr done))"

text \<open>
  \<open>handleError\<close> (lines 130-159). The argument is \<^verbatim>\<open>nativeEvent.description\<close>. The
  retry branch replaces the pending timer by a new one; the timer's callback is
  \<open>retryTimeout_callback\<close>.
\<close>

definition handleError :: "utils \<Rightarrow> smp_props \<Rightarrow> smp_state \<Rightarrow> string option
    \<Rightarrow> js_exception + smp_state \<times> smp_effect list" where
  "handleError U p s description =
     (case getSocialMediaConfig U (url p) of
        None \<Rightarrow> Inr (s, [])
      | Some config \<Rightarrow>
          (case strategy_at config (currentStrategyIndex s) of
             Inl e \<Rightarrow> Inl e
           | Inr strategy \<Rightarrow>
               (let errorMsg = js_or description ''Unknown error'' in
                if autoRetry p \<and>
                   int (currentStrategyIndex s) < int (length (embedStrategies config)) - 1
                then Inr (s\<lparr>retryTimeoutRef := True\<rparr>, [])
                else
                  (let finalError = ''Failed to load '' @ platform config @ '' video: '' @ errorMsg
                   in Inr (s\<lparr>error := Some finalError, isLoading := False\<rparr>,
                           call_onError p finalError)))))"

definition handleHttpError :: "utils \<Rightarrow> smp_props \<Rightarrow> smp_state \<Rightarrow> int
    \<Rightarrow> js_exception + smp_state \<times> smp_effect list" where
  "handleHttpError U p s statusCode =
     (case getSocialMediaConfig U (url p) of
        None \<Rightarrow> Inr (s, [])
      | Some config \<Rightarrow>
          if statusCode < 400 then Inr (s, [])
          else
            (case strategy_at config (currentStrategyIndex s) of
               Inl e \<Rightarrow> Inl e
             | Inr strategy \<Rightarrow>
                 if autoRetry p \<and>
                    int (currentStrategyIndex s) < int (length (embedStrategies config)) - 1
                 then Inr (s\<lparr>retryTimeoutRef := True\<rparr>, [])
                 else
                   (let finalError = ''HTTP Error '' @ show_int statusCode
                    in Inr (s\<lparr>error := Some finalError, isLoading := False\<rparr>,
                            call_onError p finalError))))"

text \<open>The callback of the retry timer: \<^verbatim>\<open>setCurrentStrategyIndex((prev) => prev + 1)\<close>.\<close>

definition retryTimeout_callback :: "smp_state \<Rightarrow> smp_state" where
  "retryTimeout_callback s =
     s\<lparr>currentStrategyIndex := currentStrategyIndex s + 1, retryTimeoutRef := False\<rparr>"

definition handleManualRetry :: "smp_state \<Rightarrow> smp_state" where
  "handleManualRetry s =
     s\<lparr>retryCount := retryCount s + 1, currentStrategyIndex := 0, error := None\<rparr>"

text \<open>
  Events after mounting: the four browser-surface events, a press on the retry
  button, and the retry timer firing. A handler's state update is rendered and
  followed by the index effect as above. A run stops at the first exception.
\<close>

datatype smp_event =
    LoadStart
  | LoadEnd
  | LoadError "string option"
  | HttpError int
  | ManualRetry
  | RetryTimeout

definition smp_step :: "utils \<Rightarrow> smp_props \<Rightarrow> smp_state \<Rightarrow> smp_event
    \<Rightarrow> js_exception + smp_state \<times> smp_effect list" where
  "smp_step U p s ev =
     (case (case ev of
              LoadStart \<Rightarrow> Inr (handleLoadStart s, [])
            | LoadEnd \<Rightarrow> handleLoadEnd U p s
            | LoadError description \<Rightarrow> handleError U p s description
            | HttpError statusCode \<Rightarrow> handleHttpError U p s statusCode
            | ManualRetry \<Rightarrow> Inr (handleManualRetry s, [])
            | RetryTimeout \<Rightarrow>
                if retryTimeoutRef s then Inr (retryTimeout_callback s, []) else Inr (s, []))
      of Inl e \<Rightarrow> Inl e
       | Inr r \<Rightarrow> after_update U p s r)"

fun smp_run :: "utils \<Rightarrow> smp_props \<Rightarrow> smp_state \<times> smp_effect list \<Rightarrow> smp_event list
    \<Rightarrow> js_exception + smp_state \<times> smp_effect list" where
  "smp_run U p r [] = Inr r"
| "smp_run U p r (ev # evs) =
     (case smp_step U p (fst r) ev of
        Inl e \<Rightarrow> Inl e
      | Inr r' \<Rightarrow> smp_run U p (fst r', snd r @ snd r') evs)"

text \<open>Mounting and then a list of events.\<close>

definition smp_session :: "utils \<Rightarrow> smp_props \<Rightarrow> smp_event list
    \<Rightarrow> js_exception + smp_state \<times> smp_effect list" where
  "smp_session U p evs =
     (case smp_mount U p of Inl e \<Rightarrow> Inl e | Inr r \<Rightarrow> smp_run U p r evs)"


section \<open>UniversalVideoPlayer\<close>

definition msg_truthy :: "message option \<Rightarrow> bool" where
  "msg_truthy v =
     (case v of None \<Rightarrow> False | Some (Text s) \<Rightarrow> s \<noteq> [] | Some _ \<Rightarrow> True)"

definition uvp_initial :: uvp_state where
  "uvp_initial =
     \<lparr>isLoading = True, retryCount = 0, playbackError = None, loadTimeoutRef = None,
      retryTimers = 0\<rparr>"

text \<open>Lines 69-77.\<close>

definition shouldUseNativePlayer :: "utils \<Rightarrow> uvp_props \<Rightarrow> bool" where
  "shouldUseNativePlayer U p =
     (let sourceInfo = detectVideoSource U (url p) in
      src_type sourceInfo = ''direct'' \<or> src_type sourceInfo = ''stream'' \<or>
      src_type sourceInfo = ''hls'' \<or> src_type sourceInfo = ''dash'')"

definition sampleUrl :: string where
  "sampleUrl = ''https://commondatastorage.googleapis.com/gtv-videos-bucket/sample/BigBuckBunny.mp4''"

definition safeUrl :: "utils \<Rightarrow> uvp_props \<Rightarrow> string" where
  "safeUrl U p =
     (if shouldUseNativePlayer U p \<and> url p \<noteq> [] \<and> js_trim (url p) \<noteq> [] then url p
      else sampleUrl)"

text \<open>The effect of lines 95-114.\<close>

definition eligibility_effect :: "utils \<Rightarrow> uvp_props \<Rightarrow> uvp_state \<Rightarrow> uvp_state \<times> uvp_effect list" where
  "eligibility_effect U p s =
     (let sourceInfo = detectVideoSource U (url p);
          playbackEligibility = canPlayVideo U (url p) (tier p);
          r = (if \<not> canPlay playbackEligibility then
                 (let error = js_or (reason playbackEligibility) ''Cannot play this video''
                  in (s\<lparr>playbackError := Some (Text error)\<rparr>, call_onError p (Text error)))
               else (s, []))
      in (fst r,
          snd r @
          (if requiresAgeVerification sourceInfo \<and> onAgeVerificationRequired p
           then [OnAgeVerificationRequired] else [])))"

text \<open>
  \<^verbatim>\<open>URLSearchParams.toString\<close>: the pairs as \<open>key=value\<close> joined by \<open>&\<close>, each part in the
  form-urlencoded byte encoding.
\<close>

definition hex_digit :: "nat \<Rightarrow> char" where
  "hex_digit n = ''0123456789ABCDEF'' ! n"

definition form_urlencode_char :: "char \<Rightarrow> string" where
  "form_urlencode_char c =
     (let n = (of_char c :: nat) in
      if (48 \<le> n \<and> n \<le> 57) \<or> (65 \<le> n \<and> n \<le> 90) \<or> (97 \<le> n \<and> n \<le> 122) \<or>
         n = 42 \<or> n = 45 \<or> n = 46 \<or> n = 95 then [c]
      else if n = 32 then ''+''
      else [CHR ''%'', hex_digit (n div 16), hex_digit (n mod 16)])"

definition form_urlencode :: "string \<Rightarrow> string" where
  "form_urlencode s = concat (map form_urlencode_char s)"

fun join_amp :: "string list \<Rightarrow> string" where
  "join_amp [] = []"
| "join_amp [x] = x"
| "join_amp (x # y # ys) = x @ ''&'' @ join_amp (y # ys)"

definition URLSearchParams_toString :: "(string \<times> string) list \<Rightarrow> string" where
  "URLSearchParams_toString kvs =
     join_amp (map (\<lambda>(k, v). form_urlencode k @ ''='' @ form_urlencode v) kvs)"

text \<open>The embed-URL generators (lines 218-258).\<close>

definition getYouTubeEmbedUrl :: "uvp_props \<Rightarrow> string \<Rightarrow> string" where
  "getYouTubeEmbedUrl p vid =
     ''https://www.youtube.com/embed/'' @ vid @ ''?'' @
     URLSearchParams_toString
       [(''autoplay'', if autoPlay p then ''1'' else ''0''),
        (''playsinline'', ''1''),
        (''rel'', ''0''),
        (''modestbranding'', ''1''),
        (''fs'', ''1''),
        (''iv_load_policy'', ''3''),
        (''enablejsapi'', ''1''),
        (''controls'', ''1''),
        (''showinfo'', ''0''),
        (''cc_load_policy'', ''0''),
        (''disablekb'', ''0''),
        (''widget_referrer'', ''https://rork.app'')]"

definition getYouTubeWebPlayerUrl :: "uvp_props \<Rightarrow> string \<Rightarrow> string" where
  "getYouTubeWebPlayerUrl p vid =
     ''https://www.youtube.com/watch?v='' @ vid @ ''&autoplay='' @
     (if autoPlay p then ''1'' else ''0'')"

definition getYouTubeNoEmbedUrl :: "uvp_props \<Rightarrow> string \<Rightarrow> string" where
  "getYouTubeNoEmbedUrl p vid =
     ''https://www.youtube-nocookie.com/embed/'' @ vid @ ''?'' @
     URLSearchParams_toString
       [(''autoplay'', if autoPlay p then ''1'' else ''0''),
        (''playsinline'', ''1''),
        (''rel'', ''0''),
        (''modestbranding'', ''1''),
        (''controls'', ''1''),
        (''fs'', ''1''),
        (''enablejsapi'', ''0'')]"

definition getVimeoEmbedUrl :: "uvp_props \<Rightarrow> string \<Rightarrow> string" where
  "getVimeoEmbedUrl p vid =
     ''https://player.vimeo.com/video/'' @ vid @ ''?autoplay='' @
     (if autoPlay p then ''1'' else ''0'')"

text \<open>The \<open>embedUrl\<close> that \<open>renderWebViewPlayer\<close> gives the web view (lines 293-313).\<close>

definition webView_embedUrl :: "utils \<Rightarrow> uvp_props \<Rightarrow> uvp_state \<Rightarrow> string" where
  "webView_embedUrl U p s =
     (let sourceInfo = detectVideoSource U (url p) in
      if src_type sourceInfo = ''youtube'' \<and> js_truthy (videoId sourceInfo) then
        (if retryCount s = 0 then getYouTubeEmbedUrl p (the (videoId sourceInfo))
         else if retryCount s = 1 then getYouTubeWebPlayerUrl p (the (videoId sourceInfo))
         else getYouTubeNoEmbedUrl p (the (videoId sourceInfo)))
      else if src_type sourceInfo = ''vimeo'' \<and> js_truthy (videoId sourceInfo) then
        getVimeoEmbedUrl p (the (videoId sourceInfo))
      else url p)"

text \<open>The load timer (lines 260-291).\<close>

definition handleLoadTimeout :: "uvp_props \<Rightarrow> int \<Rightarrow> uvp_state \<Rightarrow> uvp_state \<times> uvp_effect list" where
  "handleLoadTimeout p seenRetryCount s =
     (let timeoutError = ''Video load timeout. The video is taking too long to load.'' in
      if seenRetryCount < maxRetries p then
        (s\<lparr>retryCount := retryCount s + 1, isLoading := True, playbackError := None\<rparr>, [])
      else
        (s\<lparr>playbackError := Some (Text timeoutError), isLoading := False\<rparr>,
         call_onError p (Text timeoutError)))"

definition startLoadTimeout :: "uvp_state \<Rightarrow> uvp_state" where
  "startLoadTimeout s = s\<lparr>loadTimeoutRef := Some (retryCount s)\<rparr>"

definition clearLoadTimeout :: "uvp_state \<Rightarrow> uvp_state" where
  "clearLoadTimeout s = s\<lparr>loadTimeoutRef := None\<rparr>"

text \<open>
  The callback of the three retry timers (lines 425-429, 444-448, 457-461, 477-481),
  and scheduling one.
\<close>

definition retryTimer_callback :: "uvp_state \<Rightarrow> uvp_state" where
  "retryTimer_callback s =
     s\<lparr>retryCount := retryCount s + 1, isLoading := True, playbackError := None\<rparr>"

definition schedule_retry :: "uvp_state \<Rightarrow> uvp_state" where
  "schedule_retry s = s\<lparr>retryTimers := retryTimers s + 1\<rparr>"

text \<open>The handlers given to the web view (lines 400-488).\<close>

definition webView_onLoadStart :: "uvp_state \<Rightarrow> uvp_state" where
  "webView_onLoadStart s = startLoadTimeout (s\<lparr>isLoading := True\<rparr>)"

definition webView_onLoadEnd :: "uvp_state \<Rightarrow> uvp_state" where
  "webView_onLoadEnd s = (clearLoadTimeout s)\<lparr>isLoading := False, retryCount := 0\<rparr>"

definition webView_onError :: "utils \<Rightarrow> uvp_props \<Rightarrow> uvp_state \<Rightarrow> string
    \<Rightarrow> uvp_state \<times> uvp_effect list" where
  "webView_onError U p s0 description =
     (let s = clearLoadTimeout s0;
          sourceInfo = detectVideoSource U (url p) in
      if src_type sourceInfo = ''youtube'' then
        (if retryCount s < maxRetries p then (schedule_retry s, [])
         else (let error = YouTubeLoadFailed (maxRetries p)
               in (s\<lparr>playbackError := Some error\<rparr>, call_onError p error)))
      else if src_type sourceInfo = ''adult'' then
        (if retryCount s < maxRetries p then (schedule_retry s, [])
         else (let error = PlatformLoadFailed (src_platform sourceInfo)
               in (s\<lparr>playbackError := Some error\<rparr>, call_onError p error)))
      else
        (if retryCount s < maxRetries p then (schedule_retry s, [])
         else (let error = Text (''Failed to load '' @ src_platform sourceInfo @ '': '' @ description)
               in (s\<lparr>playbackError := Some error\<rparr>, call_onError p error))))"

definition webView_onHttpError :: "uvp_props \<Rightarrow> uvp_state \<Rightarrow> int \<Rightarrow> string
    \<Rightarrow> uvp_state \<times> uvp_effect list" where
  "webView_onHttpError p s0 statusCode eventUrl =
     (let s = clearLoadTimeout s0 in
      if 400 \<le> statusCode then
        (if retryCount s < maxRetries p \<and> 500 \<le> statusCode then (schedule_retry s, [])
         else (let error = Text (''HTTP Error '' @ show_int statusCode @ '': '' @ eventUrl)
               in (s\<lparr>playbackError := Some error\<rparr>, call_onError p error)))
      else (s, []))"

text \<open>What the component renders (lines 575-652).\<close>

datatype uvp_view =
    ErrorView (shown_message: "message option") (hint: "string option")
  | SocialMediaPlayerView smp_props
  | WebViewPlayer string
  | NativePlayer

definition uvp_renderError :: "utils \<Rightarrow> uvp_props \<Rightarrow> uvp_state \<Rightarrow> uvp_view" where
  "uvp_renderError U p s =
     ErrorView (playbackError s)
       (if \<not> canPlay (canPlayVideo U (url p) (tier p)) then
          Some (if tier p = ''free'' then ''Upgrade to Basic or Premium for full access''
                else ''Please check your membership status'')
        else None)"

definition useSocialMediaPlayer :: "utils \<Rightarrow> uvp_props \<Rightarrow> bool" where
  "useSocialMediaPlayer U p =
     (let sourceInfo = detectVideoSource U (url p) in
      getSocialMediaConfig U (url p) \<noteq> None \<and>
      (src_type sourceInfo = ''twitter'' \<or> src_type sourceInfo = ''instagram'' \<or>
       src_type sourceInfo = ''tiktok''))"

definition shouldUseWebView :: "utils \<Rightarrow> uvp_props \<Rightarrow> bool" where
  "shouldUseWebView U p =
     (let sourceInfo = detectVideoSource U (url p) in
      \<not> useSocialMediaPlayer U p \<and>
      (requiresWebView sourceInfo \<or>
       src_type sourceInfo = ''youtube'' \<or>
       src_type sourceInfo = ''vimeo'' \<or>
       src_type sourceInfo = ''webview'' \<or>
       src_type sourceInfo = ''adult'' \<or>
       src_type sourceInfo = ''twitter'' \<or>
       src_type sourceInfo = ''instagram'' \<or>
       src_type sourceInfo = ''tiktok'' \<or>
       src_type sourceInfo = ''twitch'' \<or>
       src_type sourceInfo = ''facebook'' \<or>
       src_type sourceInfo = ''dailymotion'' \<or>
       src_type sourceInfo = ''rumble'' \<or>
       src_type sourceInfo = ''odysee'' \<or>
       src_type sourceInfo = ''bilibili'' \<or>
       src_type sourceInfo = ''gdrive'' \<or>
       src_type sourceInfo = ''dropbox''))"

definition shouldUseNativePlayerRender :: "utils \<Rightarrow> uvp_props \<Rightarrow> bool" where
  "shouldUseNativePlayerRender U p =
     (let sourceInfo = detectVideoSource U (url p) in
      \<not> useSocialMediaPlayer U p \<and> \<not> shouldUseWebView U p \<and>
      (src_type sourceInfo = ''direct'' \<or> src_type sourceInfo = ''stream'' \<or>
       src_type sourceInfo = ''hls'' \<or> src_type sourceInfo = ''dash''))"

definition UniversalVideoPlayer :: "utils \<Rightarrow> uvp_props \<Rightarrow> uvp_state \<Rightarrow> uvp_view" where
  "UniversalVideoPlayer U p s =
     (if msg_truthy (playbackError s) then uvp_renderError U p s
      else if useSocialMediaPlayer U p then
        SocialMediaPlayerView
          \<lparr>url = url p, onError = onError p, onPlaybackStart = onPlaybackStart p,
           maxRetries = 3, onLoad = True, autoRetry = True\<rparr>
      else if shouldUseWebView U p then WebViewPlayer (webView_embedUrl U p s)
      else if shouldUseNativePlayerRender U p then NativePlayer
      else uvp_renderError U p s)"

definition webView_rendered :: "utils \<Rightarrow> uvp_props \<Rightarrow> uvp_state \<Rightarrow> bool" where
  "webView_rendered U p s =
     (UniversalVideoPlayer U p s = WebViewPlayer (webView_embedUrl U p s))"

text \<open>
  Events of the web-view path: the four events of the web view, the load timer
  firing, and one of the pending retry timers firing.
\<close>

datatype uvp_event =
    WebViewLoadStart
  | WebViewLoadEnd
  | WebViewError string
  | WebViewHttpError int string
  | LoadTimeoutFired
  | RetryTimerFired

definition uvp_step :: "utils \<Rightarrow> uvp_props \<Rightarrow> uvp_state \<Rightarrow> uvp_event
    \<Rightarrow> uvp_state \<times> uvp_effect list" where
  "uvp_step U p s ev =
     (case ev of
        WebViewLoadStart \<Rightarrow> (webView_onLoadStart s, [])
      | WebViewLoadEnd \<Rightarrow> (webView_onLoadEnd s, [])
      | WebViewError description \<Rightarrow> webView_onError U p s description
      | WebViewHttpError statusCode eventUrl \<Rightarrow> webView_onHttpError p s statusCode eventUrl
      | LoadTimeoutFired \<Rightarrow>
          (case loadTimeoutRef s of
             None \<Rightarrow> (s, [])
           | Some seen \<Rightarrow> handleLoadTimeout p seen (s\<lparr>loadTimeoutRef := None\<rparr>))
      | RetryTimerFired \<Rightarrow>
          (if 0 < retryTimers s
           then (retryTimer_callback (s\<lparr>retryTimers := retryTimers s - 1\<rparr>), [])
           else (s, [])))"

text \<open>The states a list of events leads through, the starting state first.\<close>

fun uvp_trace :: "utils \<Rightarrow> uvp_props \<Rightarrow> uvp_state \<Rightarrow> uvp_event list \<Rightarrow> uvp_state list" where
  "uvp_trace U p s [] = [s]"
| "uvp_trace U p s (ev # evs) = s # uvp_trace U p (fst (uvp_step U p s ev)) evs"

text \<open>
  A run in which every load fails with a load error and the retry timer fires before
  anything else happens: the embed URLs loaded, then the state and the effects of the
  last error.
\<close>

function failing_loads :: "utils \<Rightarrow> uvp_props \<Rightarrow> string \<Rightarrow> uvp_state
    \<Rightarrow> string list \<times> uvp_state \<times> uvp_effect list" where
  "failing_loads U p description s =
     (let r = webView_onError U p s description in
      if retryTimers (fst r) = retryTimers s then ([webView_embedUrl U p s], r)
      else (let rest = failing_loads U p description (fst (uvp_step U p (fst r) RetryTimerFired))
            in (webView_embedUrl U p s # fst rest, snd rest)))"
  by pat_completeness auto
termination
  by (relation "measure (\<lambda>(U, p, d, s). nat (maxRetries p - retryCount s))")
     (auto simp: webView_onError_def uvp_step_def retryTimer_callback_def schedule_retry_def
           clearLoadTimeout_def call_onError_def Let_def split: if_splits)

declare failing_loads.simps [simp del]



section \<open>Example inputs\<close>

text \<open>
  A small instance of the three utility functions, used to evaluate the model on
  concrete inputs: a YouTube link with a video id, a Twitter link with three embed
  strategies of which the first yields no URL, an Instagram link none of whose
  strategies yields a URL, a TikTok link whose first strategy yields a URL and whose
  second does not, and a direct media file. The free tier may not play the
  Twitter link.
\<close>

definition twitter_config :: social_media_config where
  "twitter_config =
     \<lparr>platform = ''Twitter'',
      embedStrategies =
        [\<lparr>name = ''oembed'', getEmbedUrl = (\<lambda>u. None)\<rparr>,
         \<lparr>name = ''page'', getEmbedUrl = (\<lambda>u. Some u)\<rparr>,
         \<lparr>name = ''mobile'', getEmbedUrl = (\<lambda>u. Some u)\<rparr>]\<rparr>"

definition instagram_config :: social_media_config where
  "instagram_config =
     \<lparr>platform = ''Instagram'',
      embedStrategies =
        [\<lparr>name = ''embed'', getEmbedUrl = (\<lambda>u. None)\<rparr>,
         \<lparr>name = ''captioned'', getEmbedUrl = (\<lambda>u. Some [])\<rparr>]\<rparr>"

definition tiktok_config :: social_media_config where
  "tiktok_config =
     \<lparr>platform = ''TikTok'',
      embedStrategies =
        [\<lparr>name = ''embed'', getEmbedUrl = (\<lambda>u. Some u)\<rparr>,
         \<lparr>name = ''player'', getEmbedUrl = (\<lambda>u. None)\<rparr>]\<rparr>"

definition example_utils :: utils where
  "example_utils =
     \<lparr>detectVideoSource = (\<lambda>u.
        if u = ''https://youtu.be/abc'' then
          \<lparr>src_type = ''youtube'', src_platform = ''YouTube'', requiresWebView = True,
           videoId = Some ''abc'', requiresAgeVerification = False\<rparr>
        else if u = ''https://twitter.com/u/status/1'' then
          \<lparr>src_type = ''twitter'', src_platform = ''Twitter'', requiresWebView = True,
           videoId = None, requiresAgeVerification = False\<rparr>
        else if u = ''https://instagram.com/p/1'' then
          \<lparr>src_type = ''instagram'', src_platform = ''Instagram'', requiresWebView = True,
           videoId = None, requiresAgeVerification = False\<rparr>
        else if u = ''https://tiktok.com/@u/video/1'' then
          \<lparr>src_type = ''tiktok'', src_platform = ''TikTok'', requiresWebView = True,
           videoId = None, requiresAgeVerification = False\<rparr>
        else if u = ''https://cdn.example/v.mp4'' then
          \<lparr>src_type = ''direct'', src_platform = ''Direct'', requiresWebView = False,
           videoId = None, requiresAgeVerification = False\<rparr>
        else
          \<lparr>src_type = ''unknown'', src_platform = ''Unknown'', requiresWebView = False,
           videoId = None, requiresAgeVerification = False\<rparr>),
      canPlayVideo = (\<lambda>u t.
        if t = ''free'' \<and> u = ''https://twitter.com/u/status/1''
        then \<lparr>canPlay = False, reason = None\<rparr>
        else \<lparr>canPlay = True, reason = None\<rparr>),
      getSocialMediaConfig = (\<lambda>u.
        if u = ''https://twitter.com/u/status/1'' then Some twitter_config
        else if u = ''https://instagram.com/p/1'' then Some instagram_config
        else if u = ''https://tiktok.com/@u/video/1'' then Some tiktok_config
        else None)\<rparr>"

definition example_props :: "string \<Rightarrow> string \<Rightarrow> uvp_props" where
  "example_props u t =
     \<lparr>url = u, onError = True, onPlaybackStart = False, maxRetries = 3,
      onAgeVerificationRequired = False, autoPlay = False, tier = t\<rparr>"

definition example_smp_props :: "string \<Rightarrow> smp_props" where
  "example_smp_props u =
     \<lparr>url = u, onError = True, onPlaybackStart = False, maxRetries = 3,
      onLoad = True, autoRetry = True\<rparr>"


section \<open>Properties of UniversalVideoPlayer\<close>

lemma js_trim_nonempty: "js_trim s \<noteq> [] \<Longrightarrow> s \<noteq> []"
  by (auto simp: js_trim_def)

lemma js_trim_sampleUrl: "js_trim sampleUrl \<noteq> []"
  by (simp add: js_trim_def sampleUrl_def is_js_whitespace_def)

text \<open>
  Claim C9. The URL handed to the native player is the given \<open>url\<close> exactly when the
  detected type is direct, stream, hls or dash and the url is not empty after
  trimming; in every other case it is the fixed sample URL. So the native player
  never gets a URL that is empty after trimming.
\<close>

theorem safeUrl_native_only:
  "(src_type (detectVideoSource U (url p)) \<in> {''direct'', ''stream'', ''hls'', ''dash''} \<and>
      js_trim (url p) \<noteq> [] \<longrightarrow> safeUrl U p = url p) \<and>
   (\<not> (src_type (detectVideoSource U (url p)) \<in> {''direct'', ''stream'', ''hls'', ''dash''} \<and>
      js_trim (url p) \<noteq> []) \<longrightarrow>
      safeUrl U p =
        ''https://commondatastorage.googleapis.com/gtv-videos-bucket/sample/BigBuckBunny.mp4'') \<and>
   js_trim (safeUrl U p) \<noteq> []"
  using js_trim_nonempty [of "url p"] js_trim_sampleUrl
  by (auto simp: safeUrl_def shouldUseNativePlayer_def Let_def sampleUrl_def)

theorem safeUrl_native_only_witness:
  "safeUrl example_utils (example_props ''https://cdn.example/v.mp4'' ''free'') =
     ''https://cdn.example/v.mp4'' \<and>
   safeUrl example_utils (example_props ''https://youtu.be/abc'' ''free'') = sampleUrl \<and>
   safeUrl example_utils (example_props ''   '' ''free'') = sampleUrl"
  using safeUrl_native_only [of example_utils "example_props ''https://cdn.example/v.mp4'' ''free''"]
        safeUrl_native_only [of example_utils "example_props ''https://youtu.be/abc'' ''free''"]
        safeUrl_native_only [of example_utils "example_props ''   '' ''free''"]
  by (simp add: example_utils_def example_props_def js_trim_def is_js_whitespace_def
        sampleUrl_def)

text \<open>
  Claim C7. When \<open>canPlayVideo\<close> says the video cannot be played, the eligibility
  effect stores the reason as \<open>playbackError\<close>, or \<open>Cannot play this video\<close> when the
  reason is absent or empty; it calls \<open>onError\<close> (when supplied) with that message and
  with no other; and the component then renders the error view with that message,
  not a player surface. (The effect runs after the first render, as every effect
  does.)
\<close>

theorem ineligible_video_error:
  assumes "\<not> canPlay (canPlayVideo U (url p) (tier p))"
  shows "let given = reason (canPlayVideo U (url p) (tier p));
             msg = Text (case given of None \<Rightarrow> ''Cannot play this video''
                         | Some r \<Rightarrow> if r = [] then ''Cannot play this video'' else r);
             r = eligibility_effect U p s
         in playbackError (fst r) = Some msg \<and>
            (onError p \<longrightarrow> OnError msg \<in> set (snd r)) \<and>
            (\<forall>m. OnError m \<in> set (snd r) \<longrightarrow> m = msg) \<and>
            UniversalVideoPlayer U p (fst r) =
              ErrorView (Some msg)
                (Some (if tier p = ''free'' then ''Upgrade to Basic or Premium for full access''
                       else ''Please check your membership status''))"
  using assms
  by (auto simp: eligibility_effect_def Let_def js_or_def call_onError_def
        UniversalVideoPlayer_def uvp_renderError_def msg_truthy_def
        split: option.splits)

theorem ineligible_video_error_witness:
  "\<not> canPlay (canPlayVideo example_utils ''https://twitter.com/u/status/1'' ''free'') \<and>
   snd (eligibility_effect example_utils
          (example_props ''https://twitter.com/u/status/1'' ''free'') uvp_initial) =
     [OnError (Text ''Cannot play this video'')] \<and>
   UniversalVideoPlayer example_utils (example_props ''https://twitter.com/u/status/1'' ''free'')
     (fst (eligibility_effect example_utils
             (example_props ''https://twitter.com/u/status/1'' ''free'') uvp_initial)) =
     ErrorView (Some (Text ''Cannot play this video''))
       (Some ''Upgrade to Basic or Premium for full access'')"
  using ineligible_video_error
          [of example_utils "example_props ''https://twitter.com/u/status/1'' ''free''" uvp_initial]
  by (simp add: example_utils_def example_props_def Let_def eligibility_effect_def
        js_or_def call_onError_def)

text \<open>
  Claim C1, as amended. While a playback error is stored the component renders the
  error view, whatever the URL. While none is stored it renders exactly one of four
  things, decided by the URL alone: the social-media player when
  \<open>getSocialMediaConfig\<close> is non-null and the type is twitter, instagram or tiktok;
  otherwise the web view when the source requires a web view or its type is one of
  the listed web-view types; otherwise the native player when the type is direct,
  stream, hls or dash; otherwise the error view.
\<close>

theorem player_selection:
  "let sourceInfo = detectVideoSource U (url p);
       social = (getSocialMediaConfig U (url p) \<noteq> None \<and>
                 src_type sourceInfo \<in> {''twitter'', ''instagram'', ''tiktok''});
       web = (\<not> social \<and>
              (requiresWebView sourceInfo \<or>
               src_type sourceInfo \<in>
                 {''youtube'', ''vimeo'', ''webview'', ''adult'', ''twitter'', ''instagram'',
                  ''tiktok'', ''twitch'', ''facebook'', ''dailymotion'', ''rumble'', ''odysee'',
                  ''bilibili'', ''gdrive'', ''dropbox''}));
       native = (\<not> social \<and> \<not> web \<and>
                 src_type sourceInfo \<in> {''direct'', ''stream'', ''hls'', ''dash''});
       view = UniversalVideoPlayer U p s
   in (msg_truthy (playbackError s) \<longrightarrow> view = uvp_renderError U p s) \<and>
      (\<not> msg_truthy (playbackError s) \<longrightarrow>
         (social \<longrightarrow> view = SocialMediaPlayerView
             \<lparr>url = url p, onError = onError p, onPlaybackStart = onPlaybackStart p,
              maxRetries = 3, onLoad = True, autoRetry = True\<rparr>) \<and>
         (web \<longrightarrow> view = WebViewPlayer (webView_embedUrl U p s)) \<and>
         (native \<longrightarrow> view = NativePlayer) \<and>
         (\<not> social \<and> \<not> web \<and> \<not> native \<longrightarrow> view = uvp_renderError U p s))"
proof -
  have social: "useSocialMediaPlayer U p \<longleftrightarrow>
      getSocialMediaConfig U (url p) \<noteq> None \<and>
      src_type (detectVideoSource U (url p)) \<in> {''twitter'', ''instagram'', ''tiktok''}"
    by (simp add: useSocialMediaPlayer_def Let_def)
  have web: "shouldUseWebView U p \<longleftrightarrow>
      \<not> useSocialMediaPlayer U p \<and>
      (requiresWebView (detectVideoSource U (url p)) \<or>
       src_type (detectVideoSource U (url p)) \<in>
         {''youtube'', ''vimeo'', ''webview'', ''adult'', ''twitter'', ''instagram'',
          ''tiktok'', ''twitch'', ''facebook'', ''dailymotion'', ''rumble'', ''odysee'',
          ''bilibili'', ''gdrive'', ''dropbox''})"
    by (simp add: shouldUseWebView_def Let_def)
  have native: "shouldUseNativePlayerRender U p \<longleftrightarrow>
      \<not> useSocialMediaPlayer U p \<and> \<not> shouldUseWebView U p \<and>
      src_type (detectVideoSource U (url p)) \<in> {''direct'', ''stream'', ''hls'', ''dash''}"
    by (simp add: shouldUseNativePlayerRender_def Let_def)
  have excl: "shouldUseWebView U p \<Longrightarrow> \<not> useSocialMediaPlayer U p"
    "shouldUseNativePlayerRender U p \<Longrightarrow> \<not> useSocialMediaPlayer U p \<and> \<not> shouldUseWebView U p"
    using web native by blast+
  show ?thesis
    unfolding Let_def social [symmetric] web [symmetric] native [symmetric]
    using excl by (auto simp: UniversalVideoPlayer_def)
qed

theorem player_selection_witness:
  "UniversalVideoPlayer example_utils (example_props ''https://youtu.be/abc'' ''free'') uvp_initial =
     WebViewPlayer
       (webView_embedUrl example_utils (example_props ''https://youtu.be/abc'' ''free'') uvp_initial) \<and>
   UniversalVideoPlayer example_utils (example_props ''https://cdn.example/v.mp4'' ''free'') uvp_initial =
     NativePlayer \<and>
   UniversalVideoPlayer example_utils (example_props ''https://twitter.com/u/status/1'' ''basic'')
     uvp_initial =
     SocialMediaPlayerView (example_smp_props ''https://twitter.com/u/status/1'')"
  using player_selection [of example_utils "example_props ''https://youtu.be/abc'' ''free''" uvp_initial]
        player_selection [of example_utils "example_props ''https://cdn.example/v.mp4'' ''free''" uvp_initial]
        player_selection [of example_utils "example_props ''https://twitter.com/u/status/1'' ''basic''"
                            uvp_initial]
  by (simp add: example_utils_def example_props_def example_smp_props_def uvp_initial_def
        msg_truthy_def Let_def)

text \<open>
  The claim as first stated fails once the eligibility effect has stored an error:
  the free tier's Twitter link has a social-media configuration and type twitter,
  and the component renders the error view.
\<close>

theorem player_selection_counterexample:
  "getSocialMediaConfig example_utils
     (url (example_props ''https://twitter.com/u/status/1'' ''free'')) \<noteq> None \<and>
   src_type (detectVideoSource example_utils
     (url (example_props ''https://twitter.com/u/status/1'' ''free''))) = ''twitter'' \<and>
   UniversalVideoPlayer example_utils (example_props ''https://twitter.com/u/status/1'' ''free'')
     (fst (eligibility_effect example_utils
             (example_props ''https://twitter.com/u/status/1'' ''free'') uvp_initial)) =
   ErrorView (Some (Text ''Cannot play this video''))
     (Some ''Upgrade to Basic or Premium for full access'')"
  by (simp add: example_utils_def example_props_def uvp_initial_def msg_truthy_def Let_def
        eligibility_effect_def UniversalVideoPlayer_def uvp_renderError_def js_or_def
        call_onError_def)

text \<open>
  Claim C10, as amended. The HTTP-error handler schedules a retry exactly when the
  status code is at least 500 and \<open>retryCount\<close> is below \<open>maxRetries\<close>. For every
  status code from 400 to 499 it stores the error \<open>HTTP Error {statusCode}: {url}\<close> and
  reports it through \<open>onError\<close> at once, whatever the retry budget. For a status code
  below 400 it changes no state variable and reports nothing. For every status code
  it first cancels the pending load timer. (A status code of 500 or more with the
  budget spent is stored and reported like one from 400 to 499, so the result of
  the handler is fixed in every case.)
\<close>

theorem http_error_handling:
  "let r = webView_onHttpError p s statusCode eventUrl;
       msg = Text (''HTTP Error '' @ show_int statusCode @ '': '' @ eventUrl);
       report = (if onError p then [OnError msg] else [])
   in (retryTimers (fst r) = retryTimers s + 1 \<longleftrightarrow>
         500 \<le> statusCode \<and> retryCount s < maxRetries p) \<and>
      (500 \<le> statusCode \<and> retryCount s < maxRetries p \<longrightarrow>
         r = (s\<lparr>loadTimeoutRef := None, retryTimers := retryTimers s + 1\<rparr>, [])) \<and>
      (\<not> (500 \<le> statusCode \<and> retryCount s < maxRetries p) \<longrightarrow>
         retryTimers (fst r) = retryTimers s) \<and>
      (400 \<le> statusCode \<and> statusCode \<le> 499 \<longrightarrow>
         r = (s\<lparr>loadTimeoutRef := None, playbackError := Some msg\<rparr>, report)) \<and>
      (500 \<le> statusCode \<and> \<not> retryCount s < maxRetries p \<longrightarrow>
         r = (s\<lparr>loadTimeoutRef := None, playbackError := Some msg\<rparr>, report)) \<and>
      (statusCode < 400 \<longrightarrow> r = (s\<lparr>loadTimeoutRef := None\<rparr>, [])) \<and>
      loadTimeoutRef (fst r) = None"
  by (auto simp: webView_onHttpError_def Let_def clearLoadTimeout_def schedule_retry_def
        call_onError_def)

theorem http_error_handling_witness:
  "webView_onHttpError (example_props ''https://youtu.be/abc'' ''free'')
      (webView_onLoadStart uvp_initial) 503 ''https://youtu.be/abc'' =
     (uvp_initial\<lparr>retryTimers := 1\<rparr>, []) \<and>
   webView_onHttpError (example_props ''https://youtu.be/abc'' ''free'')
      (webView_onLoadStart uvp_initial) 404 ''https://youtu.be/abc'' =
     (uvp_initial\<lparr>playbackError := Some (Text ''HTTP Error 404: https://youtu.be/abc'')\<rparr>,
      [OnError (Text ''HTTP Error 404: https://youtu.be/abc'')]) \<and>
   webView_onHttpError (example_props ''https://youtu.be/abc'' ''free'')
      (webView_onLoadStart (uvp_initial\<lparr>retryCount := 3\<rparr>)) 503 ''https://youtu.be/abc'' =
     (uvp_initial\<lparr>retryCount := 3,
        playbackError := Some (Text ''HTTP Error 503: https://youtu.be/abc'')\<rparr>,
      [OnError (Text ''HTTP Error 503: https://youtu.be/abc'')]) \<and>
   webView_onHttpError (example_props ''https://youtu.be/abc'' ''free'')
      (webView_onLoadStart uvp_initial) 302 ''https://youtu.be/abc'' = (uvp_initial, [])"
  using http_error_handling [of "example_props ''https://youtu.be/abc'' ''free''"
          "webView_onLoadStart uvp_initial" 503 "''https://youtu.be/abc''"]
        http_error_handling [of "example_props ''https://youtu.be/abc'' ''free''"
          "webView_onLoadStart uvp_initial" 404 "''https://youtu.be/abc''"]
        http_error_handling [of "example_props ''https://youtu.be/abc'' ''free''"
          "webView_onLoadStart (uvp_initial\<lparr>retryCount := 3\<rparr>)" 503 "''https://youtu.be/abc''"]
        http_error_handling [of "example_props ''https://youtu.be/abc'' ''free''"
          "webView_onLoadStart uvp_initial" 302 "''https://youtu.be/abc''"]
  by (simp add: example_props_def uvp_initial_def Let_def show_int_def
        webView_onLoadStart_def startLoadTimeout_def)

text \<open>
  The claim as first stated says a status code below 400 changes no state. After a
  load has started the load timer is pending, and an HTTP event with status 302
  cancels it.
\<close>

theorem http_error_handling_counterexample:
  "loadTimeoutRef (webView_onLoadStart uvp_initial) = Some 0 \<and>
   loadTimeoutRef (fst (webView_onHttpError (example_props ''https://youtu.be/abc'' ''free'')
          (webView_onLoadStart uvp_initial) 302 ''https://youtu.be/abc'')) = None"
  by (simp add: webView_onHttpError_def webView_onLoadStart_def startLoadTimeout_def
        clearLoadTimeout_def uvp_initial_def Let_def)

text \<open>
  Each handler schedules a retry only when the \<open>retryCount\<close> it sees is below
  \<open>maxRetries\<close>; the increment itself happens later, when the timer fires.
\<close>

lemma retry_scheduled_below_maxRetries:
  "retryTimers (fst (webView_onError U p s d)) \<noteq> retryTimers s \<Longrightarrow> retryCount s < maxRetries p"
  "retryTimers (fst (webView_onHttpError p s c u)) \<noteq> retryTimers s \<Longrightarrow> retryCount s < maxRetries p"
  by (auto simp: webView_onError_def webView_onHttpError_def Let_def clearLoadTimeout_def
        schedule_retry_def split: if_splits)

text \<open>
  Claim C3. The claim is that \<open>retryCount\<close> never exceeds \<open>maxRetries\<close> on the web-view
  path. The run below is for the YouTube link with the default \<open>maxRetries = 3\<close>. Two
  load errors, each followed by its retry timer, bring the counter to 2. Then two
  load errors arrive before a timer fires: both handlers see \<open>retryCount = 2 < 3\<close>
  and both schedule a retry, and the two timers take the counter to 3 and to 4. No
  playback error is stored on the way, so the web view is rendered in every state
  of the run.
\<close>

theorem retry_counter_exceeds_maxRetries:
  "maxRetries (example_props ''https://youtu.be/abc'' ''free'') = 3 \<and>
   map retryCount
     (uvp_trace example_utils (example_props ''https://youtu.be/abc'' ''free'') uvp_initial
        [WebViewError ''net::ERR_FAILED'', RetryTimerFired,
         WebViewError ''net::ERR_FAILED'', RetryTimerFired,
         WebViewError ''net::ERR_FAILED'', WebViewError ''net::ERR_FAILED'',
         RetryTimerFired, RetryTimerFired]) =
     [0, 0, 1, 1, 2, 2, 2, 3, 4] \<and>
   list_all (webView_rendered example_utils (example_props ''https://youtu.be/abc'' ''free''))
     (uvp_trace example_utils (example_props ''https://youtu.be/abc'' ''free'') uvp_initial
        [WebViewError ''net::ERR_FAILED'', RetryTimerFired,
         WebViewError ''net::ERR_FAILED'', RetryTimerFired,
         WebViewError ''net::ERR_FAILED'', WebViewError ''net::ERR_FAILED'',
         RetryTimerFired, RetryTimerFired])"
  by code_simp

lemma webView_embedUrl_retryCount:
  "retryCount s = retryCount s' \<Longrightarrow> webView_embedUrl U p s = webView_embedUrl U p s'"
  unfolding webView_embedUrl_def Let_def by (erule subst) (rule refl)

lemma failing_loads_last:
  assumes "src_type (detectVideoSource U (url p)) = ''youtube''"
    and "\<not> retryCount s < maxRetries p"
  shows "failing_loads U p d s =
           ([webView_embedUrl U p s],
            s\<lparr>loadTimeoutRef := None, playbackError := Some (YouTubeLoadFailed (maxRetries p))\<rparr>,
            call_onError p (YouTubeLoadFailed (maxRetries p)))"
  using assms
  by (subst failing_loads.simps)
     (simp add: webView_onError_def Let_def clearLoadTimeout_def)

lemma failing_loads_retry:
  assumes "src_type (detectVideoSource U (url p)) = ''youtube''"
    and "retryCount s < maxRetries p"
  shows "failing_loads U p d s =
           (webView_embedUrl U p s #
              fst (failing_loads U p d
                     (s\<lparr>loadTimeoutRef := None, retryCount := retryCount s + 1,
                        isLoading := True, playbackError := None\<rparr>)),
            snd (failing_loads U p d
                     (s\<lparr>loadTimeoutRef := None, retryCount := retryCount s + 1,
                        isLoading := True, playbackError := None\<rparr>)))"
  using assms
  by (subst failing_loads.simps)
     (simp add: webView_onError_def Let_def clearLoadTimeout_def schedule_retry_def
        uvp_step_def retryTimer_callback_def)

lemma failing_loads_youtube:
  assumes yt: "src_type (detectVideoSource U (url p)) = ''youtube''"
  shows "retryCount s \<le> maxRetries p \<Longrightarrow>
         fst (failing_loads U p d s) =
           map (\<lambda>k. webView_embedUrl U p (s\<lparr>retryCount := k\<rparr>)) [retryCount s..maxRetries p] \<and>
         playbackError (fst (snd (failing_loads U p d s))) =
           Some (YouTubeLoadFailed (maxRetries p)) \<and>
         snd (snd (failing_loads U p d s)) = call_onError p (YouTubeLoadFailed (maxRetries p))"
proof (induction "nat (maxRetries p - retryCount s)" arbitrary: s)
  case 0
  then have eq: "retryCount s = maxRetries p" by simp
  then have "\<not> retryCount s < maxRetries p" by simp
  from failing_loads_last [OF yt this] eq show ?case
    by (simp add: webView_embedUrl_retryCount [of "s\<lparr>retryCount := maxRetries p\<rparr>" s])
next
  case (Suc n)
  then have lt: "retryCount s < maxRetries p" by simp
  let ?s' = "s\<lparr>loadTimeoutRef := None, retryCount := retryCount s + 1,
                isLoading := True, playbackError := None\<rparr>"
  have ih: "fst (failing_loads U p d ?s') =
           map (\<lambda>k. webView_embedUrl U p (?s'\<lparr>retryCount := k\<rparr>)) [retryCount ?s'..maxRetries p] \<and>
         playbackError (fst (snd (failing_loads U p d ?s'))) =
           Some (YouTubeLoadFailed (maxRetries p)) \<and>
         snd (snd (failing_loads U p d ?s')) = call_onError p (YouTubeLoadFailed (maxRetries p))"
    using Suc.hyps(2) lt by (intro Suc.hyps(1)) simp_all
  have urls: "\<And>k. webView_embedUrl U p (?s'\<lparr>retryCount := k\<rparr>) =
                   webView_embedUrl U p (s\<lparr>retryCount := k\<rparr>)"
    by (rule webView_embedUrl_retryCount) simp
  have up: "[retryCount s..maxRetries p] = retryCount s # [retryCount s + 1..maxRetries p]"
    using lt by (simp add: upto_rec1)
  show ?case
    using ih lt unfolding failing_loads_retry [OF yt lt] up urls
    by simp
qed

lemma youtube_generators_distinct:
  "distinct [getYouTubeEmbedUrl p v, getYouTubeWebPlayerUrl p v, getYouTubeNoEmbedUrl p v]"
  by (simp add: getYouTubeEmbedUrl_def getYouTubeWebPlayerUrl_def getYouTubeNoEmbedUrl_def)

lemma upto_from_0: "2 \<le> (m::int) \<Longrightarrow> [0..m] = 0 # 1 # [2..m]"
  by (simp add: upto_rec1)

lemma map_const_upto: "map (\<lambda>k. c) [i..j] = replicate (nat (j - i + 1)) c"
proof (induction "nat (j - i + 1)" arbitrary: i)
  case 0
  then show ?case by simp
next
  case (Suc n)
  then have "i \<le> j" by simp
  then have "[i..j] = i # [i + 1..j]" by (simp add: upto_rec1)
  moreover have "n = nat (j - (i + 1) + 1)" using Suc.hyps(2) by simp
  ultimately show ?case using Suc.hyps(1) [of "i + 1"] Suc.hyps(2)
    by (metis list.simps(9) replicate_Suc)
qed

text \<open>
  Claim C4, as amended. For a YouTube source with a video id the embed URL is a
  function of the retry counter: the standard \<open>youtube.com/embed\<close> URL at 0, the
  \<open>youtube.com/watch\<close> page at 1, and the \<open>youtube-nocookie.com/embed\<close> URL at every
  other value; the three are distinct. In a run where every load fails and each
  retry timer fires before the next event there are \<open>maxRetries + 1\<close> loads: embed,
  watch, and then nocookie for all that remain, after which the error is stored and
  reported. So all three generators are tried before the final error exactly when
  \<open>maxRetries\<close> is at least 2 (the default is 3), and retries after the second load
  the nocookie URL again.
\<close>

theorem youtube_embed_url_by_retryCount:
  assumes "src_type (detectVideoSource U (url p)) = ''youtube''"
    and "videoId (detectVideoSource U (url p)) = Some v" and "v \<noteq> []"
  shows "webView_embedUrl U p s =
           (if retryCount s = 0 then getYouTubeEmbedUrl p v
            else if retryCount s = 1 then getYouTubeWebPlayerUrl p v
            else getYouTubeNoEmbedUrl p v) \<and>
         distinct [getYouTubeEmbedUrl p v, getYouTubeWebPlayerUrl p v, getYouTubeNoEmbedUrl p v] \<and>
         (2 \<le> maxRetries p \<longrightarrow>
            fst (failing_loads U p d uvp_initial) =
              getYouTubeEmbedUrl p v # getYouTubeWebPlayerUrl p v #
              replicate (nat (maxRetries p - 1)) (getYouTubeNoEmbedUrl p v)) \<and>
         (maxRetries p = 1 \<longrightarrow>
            fst (failing_loads U p d uvp_initial) =
              [getYouTubeEmbedUrl p v, getYouTubeWebPlayerUrl p v]) \<and>
         (maxRetries p \<le> 0 \<longrightarrow>
            fst (failing_loads U p d uvp_initial) = [getYouTubeEmbedUrl p v]) \<and>
         playbackError (fst (snd (failing_loads U p d uvp_initial))) =
           Some (YouTubeLoadFailed (maxRetries p)) \<and>
         snd (snd (failing_loads U p d uvp_initial)) =
           (if onError p then [OnError (YouTubeLoadFailed (maxRetries p))] else [])"
proof -
  have u: "\<And>s. webView_embedUrl U p s =
           (if retryCount s = 0 then getYouTubeEmbedUrl p v
            else if retryCount s = 1 then getYouTubeWebPlayerUrl p v
            else getYouTubeNoEmbedUrl p v)"
    using assms by (simp add: webView_embedUrl_def js_truthy_def)
  have r0: "retryCount uvp_initial = 0" by (simp add: uvp_initial_def)
  show ?thesis
  proof (cases "0 \<le> maxRetries p")
    case True
    then have le: "retryCount uvp_initial \<le> maxRetries p" using r0 by simp
    note fl = failing_loads_youtube [OF assms(1) le, of d]
    have big: "2 \<le> maxRetries p \<Longrightarrow>
        map (\<lambda>k. webView_embedUrl U p (uvp_initial\<lparr>retryCount := k\<rparr>)) [0..maxRetries p] =
        getYouTubeEmbedUrl p v # getYouTubeWebPlayerUrl p v #
              replicate (nat (maxRetries p - 1)) (getYouTubeNoEmbedUrl p v)"
    proof -
      assume m: "2 \<le> maxRetries p"
      have "map (\<lambda>k. webView_embedUrl U p (uvp_initial\<lparr>retryCount := k\<rparr>)) [2..maxRetries p] =
            map (\<lambda>k. getYouTubeNoEmbedUrl p v) [2..maxRetries p]"
        by (rule map_cong) (auto simp: u)
      then show ?thesis
        using m by (simp add: upto_from_0 u map_const_upto)
    qed
    have one: "maxRetries p = 1 \<Longrightarrow>
        map (\<lambda>k. webView_embedUrl U p (uvp_initial\<lparr>retryCount := k\<rparr>)) [0..maxRetries p] =
        [getYouTubeEmbedUrl p v, getYouTubeWebPlayerUrl p v]"
      by (simp add: upto_rec1 u)
    have zero: "maxRetries p = 0 \<Longrightarrow>
        map (\<lambda>k. webView_embedUrl U p (uvp_initial\<lparr>retryCount := k\<rparr>)) [0..maxRetries p] =
        [getYouTubeEmbedUrl p v]"
      by (simp add: u)
    show ?thesis
      using fl True big one zero u [of s] youtube_generators_distinct [of p v] r0
      by (auto simp: call_onError_def)
  next
    case False
    then have "\<not> retryCount uvp_initial < maxRetries p" using r0 by simp
    from failing_loads_last [OF assms(1) this, of d] False
    show ?thesis
      using u [of s] u [of uvp_initial] youtube_generators_distinct [of p v] r0
      by (auto simp: call_onError_def)
  qed
qed

theorem youtube_embed_url_by_retryCount_witness:
  "fst (failing_loads example_utils (example_props ''https://youtu.be/abc'' ''free'')
          ''net::ERR_FAILED'' uvp_initial) =
     [getYouTubeEmbedUrl (example_props ''https://youtu.be/abc'' ''free'') ''abc'',
      getYouTubeWebPlayerUrl (example_props ''https://youtu.be/abc'' ''free'') ''abc'',
      getYouTubeNoEmbedUrl (example_props ''https://youtu.be/abc'' ''free'') ''abc'',
      getYouTubeNoEmbedUrl (example_props ''https://youtu.be/abc'' ''free'') ''abc''] \<and>
   snd (snd (failing_loads example_utils (example_props ''https://youtu.be/abc'' ''free'')
          ''net::ERR_FAILED'' uvp_initial)) = [OnError (YouTubeLoadFailed 3)]"
proof -
  let ?p = "example_props ''https://youtu.be/abc'' ''free''"
  have h: "src_type (detectVideoSource example_utils (url ?p)) = ''youtube''"
      "videoId (detectVideoSource example_utils (url ?p)) = Some ''abc''" "''abc'' \<noteq> []"
    by (simp_all add: example_utils_def example_props_def)
  have m: "maxRetries ?p = 3" "onError ?p" by (simp_all add: example_props_def)
  have r: "replicate (nat (3 - 1)) x = [x, x]" for x :: string
    by (simp add: eval_nat_numeral)
  from youtube_embed_url_by_retryCount [OF h, of uvp_initial "''net::ERR_FAILED''"] m r
  show ?thesis by simp
qed

text \<open>
  The claim as first stated has every retry advance to the next generator. With the
  default \<open>maxRetries = 3\<close> a load error at \<open>retryCount = 2\<close> schedules a retry, and
  the URL at 3 is the URL at 2.
\<close>

theorem youtube_embed_url_by_retryCount_counterexample:
  "retryTimers (fst (webView_onError example_utils (example_props ''https://youtu.be/abc'' ''free'')
      (uvp_initial\<lparr>retryCount := 2\<rparr>) ''net::ERR_FAILED'')) = 1 \<and>
   webView_embedUrl example_utils (example_props ''https://youtu.be/abc'' ''free'')
      (uvp_initial\<lparr>retryCount := 3\<rparr>) =
   webView_embedUrl example_utils (example_props ''https://youtu.be/abc'' ''free'')
      (uvp_initial\<lparr>retryCount := 2\<rparr>)"
  by code_simp


section \<open>Properties of SocialMediaPlayer\<close>

text \<open>
  Claim C2. Let a configuration exist and the web view be rendered (the only
  situation in which a load-error event arrives). If \<open>autoRetry\<close> is set and the
  strategy index is below \<open>embedStrategies.length - 1\<close>, \<open>handleError\<close> changes nothing
  but starts the retry timer, whose callback raises the index by exactly one.
  Otherwise it stores \<open>Failed to load {platform} video: {errorMsg}\<close>, clears the
  loading flag and calls \<open>onError\<close> (when supplied) with that message, where
  \<open>errorMsg\<close> is the event's description or \<open>Unknown error\<close>.
\<close>

theorem handleError_retry_or_stop:
  assumes "getSocialMediaConfig U (url p) = Some config"
    and "SocialMediaPlayer U p s = Inr (WebViewSurface u n l)"
  shows "let errorMsg = (case description of None \<Rightarrow> ''Unknown error''
                         | Some d \<Rightarrow> if d = [] then ''Unknown error'' else d);
             finalError = ''Failed to load '' @ platform config @ '' video: '' @ errorMsg
         in (autoRetry p \<and>
             int (currentStrategyIndex s) < int (length (embedStrategies config)) - 1 \<longrightarrow>
               handleError U p s description = Inr (s\<lparr>retryTimeoutRef := True\<rparr>, []) \<and>
               currentStrategyIndex (retryTimeout_callback (s\<lparr>retryTimeoutRef := True\<rparr>)) =
                 currentStrategyIndex s + 1) \<and>
            (\<not> (autoRetry p \<and>
                int (currentStrategyIndex s) < int (length (embedStrategies config)) - 1) \<longrightarrow>
               handleError U p s description =
                 Inr (s\<lparr>error := Some finalError, isLoading := False\<rparr>,
                      if onError p then [OnError finalError] else []))"
proof -
  from assms have "currentStrategyIndex s < length (embedStrategies config)"
    by (auto simp: SocialMediaPlayer_def strategy_at_def smp_renderError_def
             split: if_splits sum.splits)
  then have at: "strategy_at config (currentStrategyIndex s) =
      Inr (embedStrategies config ! currentStrategyIndex s)"
    by (simp add: strategy_at_def)
  show ?thesis
    using assms(1) at
    by (simp add: handleError_def Let_def js_or_def call_onError_def retryTimeout_callback_def
          split: option.splits)
qed

theorem handleError_retry_or_stop_witness:
  "smp_mount example_utils (example_smp_props ''https://twitter.com/u/status/1'') =
     Inr (smp_initial\<lparr>currentStrategyIndex := 1,
            embedUrl := Some ''https://twitter.com/u/status/1''\<rparr>,
          [TryingStrategy 0, TryingStrategy 1]) \<and>
   SocialMediaPlayer example_utils (example_smp_props ''https://twitter.com/u/status/1'')
     (smp_initial\<lparr>currentStrategyIndex := 1,
        embedUrl := Some ''https://twitter.com/u/status/1''\<rparr>) =
     Inr (WebViewSurface ''https://twitter.com/u/status/1'' ''page'' True) \<and>
   handleError example_utils (example_smp_props ''https://twitter.com/u/status/1'')
     (smp_initial\<lparr>currentStrategyIndex := 1,
        embedUrl := Some ''https://twitter.com/u/status/1''\<rparr>)
     (Some ''net::ERR_FAILED'') =
     Inr (smp_initial\<lparr>currentStrategyIndex := 1,
            embedUrl := Some ''https://twitter.com/u/status/1'',
            retryTimeoutRef := True\<rparr>, []) \<and>
   handleError example_utils (example_smp_props ''https://twitter.com/u/status/1'')
     (smp_initial\<lparr>currentStrategyIndex := 2,
        embedUrl := Some ''https://twitter.com/u/status/1''\<rparr>) None =
     Inr (smp_initial\<lparr>currentStrategyIndex := 2,
            embedUrl := Some ''https://twitter.com/u/status/1'',
            error := Some ''Failed to load Twitter video: Unknown error'',
            isLoading := False\<rparr>,
          [OnError ''Failed to load Twitter video: Unknown error''])"
proof -
  let ?p = "example_smp_props ''https://twitter.com/u/status/1''"
  let ?s1 = "smp_initial\<lparr>currentStrategyIndex := 1,
        embedUrl := Some ''https://twitter.com/u/status/1''\<rparr>"
  let ?s2 = "smp_initial\<lparr>currentStrategyIndex := 2,
        embedUrl := Some ''https://twitter.com/u/status/1''\<rparr>"
  have m: "smp_mount example_utils ?p = Inr (?s1, [TryingStrategy 0, TryingStrategy 1])"
    by code_simp
  have cfg: "getSocialMediaConfig example_utils (url ?p) = Some twitter_config"
    by (simp add: example_utils_def example_smp_props_def)
  have v1: "SocialMediaPlayer example_utils ?p ?s1 =
      Inr (WebViewSurface ''https://twitter.com/u/status/1'' ''page'' True)"
    by code_simp
  have v2: "SocialMediaPlayer example_utils ?p ?s2 =
      Inr (WebViewSurface ''https://twitter.com/u/status/1'' ''mobile'' True)"
    by code_simp
  have a: "autoRetry ?p" "length (embedStrategies twitter_config) = 3"
      "platform twitter_config = ''Twitter''" "onError ?p"
    by (simp_all add: example_smp_props_def twitter_config_def)
  from handleError_retry_or_stop [OF cfg v1, of "Some ''net::ERR_FAILED''"] a
  have r1: "handleError example_utils ?p ?s1 (Some ''net::ERR_FAILED'') =
      Inr (?s1\<lparr>retryTimeoutRef := True\<rparr>, [])"
    by (simp add: Let_def smp_initial_def)
  from handleError_retry_or_stop [OF cfg v2, of None] a
  have r2: "handleError example_utils ?p ?s2 None =
      Inr (?s2\<lparr>error := Some ''Failed to load Twitter video: Unknown error'',
             isLoading := False\<rparr>,
          [OnError ''Failed to load Twitter video: Unknown error''])"
    by (simp add: Let_def smp_initial_def)
  from m v1 r1 r2 show ?thesis by (simp add: smp_initial_def)
qed

lemma tryNextStrategy_fail_step:
  assumes "getSocialMediaConfig U (url p) = Some config"
    and "\<forall>st\<in>set (embedStrategies config). \<not> js_truthy (getEmbedUrl st (url p))"
    and "currentStrategyIndex s < length (embedStrategies config)"
  shows "tryNextStrategy U p s =
           (s\<lparr>currentStrategyIndex := currentStrategyIndex s + 1\<rparr>,
            [TryingStrategy (currentStrategyIndex s)])"
  using assms by (simp add: tryNextStrategy_def Let_def)

lemma tryNextStrategy_exhausted:
  assumes "getSocialMediaConfig U (url p) = Some config"
    and "length (embedStrategies config) \<le> currentStrategyIndex s"
  shows "tryNextStrategy U p s =
           (s\<lparr>error := Some (''Failed to load '' @ platform config @
                               '' video after trying all strategies''),
              isLoading := False\<rparr>,
            call_onError p (''Failed to load '' @ platform config @
                            '' video after trying all strategies''))"
  using assms by (simp add: tryNextStrategy_def Let_def)

lemma render_without_embedUrl:
  "\<not> js_truthy (embedUrl s) \<Longrightarrow> SocialMediaPlayer U p s = Inr (smp_renderError U p s)"
  by (simp add: SocialMediaPlayer_def split: option.splits)

lemma index_effect_chain_all_fail:
  assumes cfg: "getSocialMediaConfig U (url p) = Some config"
    and fail: "\<forall>st\<in>set (embedStrategies config). \<not> js_truthy (getEmbedUrl st (url p))"
  shows "0 < currentStrategyIndex s \<Longrightarrow>
         currentStrategyIndex s \<le> length (embedStrategies config) \<Longrightarrow>
         \<not> js_truthy (embedUrl s) \<Longrightarrow>
         index_effect_chain U p s =
           Inr (s\<lparr>currentStrategyIndex := length (embedStrategies config),
                  error := Some (''Failed to load '' @ platform config @
                                 '' video after trying all strategies''),
                  isLoading := False\<rparr>,
                map TryingStrategy [currentStrategyIndex s ..< length (embedStrategies config)] @
                call_onError p (''Failed to load '' @ platform config @
                                '' video after trying all strategies''))"
proof (induction "length (embedStrategies config) - currentStrategyIndex s" arbitrary: s)
  case 0
  then have eq: "currentStrategyIndex s = length (embedStrategies config)" by simp
  have "index_effect U p s = tryNextStrategy U p s"
    using 0 cfg by (simp add: index_effect_def)
  then show ?case
    using tryNextStrategy_exhausted [OF cfg, of s] eq 0(4)
    by (subst index_effect_chain.simps) (simp add: Let_def render_without_embedUrl)
next
  case (Suc k)
  then have lt: "currentStrategyIndex s < length (embedStrategies config)" by simp
  let ?s' = "s\<lparr>currentStrategyIndex := currentStrategyIndex s + 1\<rparr>"
  have ie: "index_effect U p s = (?s', [TryingStrategy (currentStrategyIndex s)])"
    using Suc.prems cfg tryNextStrategy_fail_step [OF cfg fail lt]
    by (simp add: index_effect_def)
  have rd: "SocialMediaPlayer U p ?s' = Inr (smp_renderError U p ?s')"
    using Suc.prems(3) by (simp add: render_without_embedUrl)
  have ih: "index_effect_chain U p ?s' =
           Inr (?s'\<lparr>currentStrategyIndex := length (embedStrategies config),
                  error := Some (''Failed to load '' @ platform config @
                                 '' video after trying all strategies''),
                  isLoading := False\<rparr>,
                map TryingStrategy [currentStrategyIndex ?s' ..< length (embedStrategies config)] @
                call_onError p (''Failed to load '' @ platform config @
                                '' video after trying all strategies''))"
    using Suc.hyps(2) lt Suc.prems(3) by (intro Suc.hyps(1)) simp_all
  show ?case
    using ie ih lt rd
    by (subst index_effect_chain.simps) (simp add: Let_def upt_conv_Cons)
qed

text \<open>
  Claim C5. If a configuration exists and no strategy yields an embed URL (each
  returns \<^verbatim>\<open>null\<close>, or the empty string, which the component treats alike), then
  mounting does not throw and tries the strategies \<open>0, 1, ..., n - 1\<close> in this order,
  each once, where \<open>n\<close> is \<open>embedStrategies.length\<close>; the index ends at \<open>n\<close>, the error
  \<open>Failed to load {platform} video after trying all strategies\<close> is stored, the
  loading flag is cleared and \<open>onError\<close> (when supplied) is called with that message.
  \<open>smp_mount\<close> is a total function, so the chain ends.
\<close>

theorem all_strategies_fail_chain:
  assumes "getSocialMediaConfig U (url p) = Some config"
    and "\<forall>st\<in>set (embedStrategies config). \<not> js_truthy (getEmbedUrl st (url p))"
  shows "smp_mount U p =
           Inr (smp_initial\<lparr>currentStrategyIndex := length (embedStrategies config),
                  error := Some (''Failed to load '' @ platform config @
                                 '' video after trying all strategies''),
                  isLoading := False\<rparr>,
                map TryingStrategy [0 ..< length (embedStrategies config)] @
                (if onError p
                 then [OnError (''Failed to load '' @ platform config @
                                '' video after trying all strategies'')]
                 else []))"
proof (cases "embedStrategies config = []")
  case True
  then show ?thesis
    using assms(1) tryNextStrategy_exhausted [OF assms(1), of smp_initial]
    by (simp add: smp_mount_def mount_effect_def after_update_def smp_initial_def
          call_onError_def render_without_embedUrl js_truthy_def)
next
  case False
  then have lt: "currentStrategyIndex smp_initial < length (embedStrategies config)"
    by (simp add: smp_initial_def)
  have m: "mount_effect U p smp_initial =
      (smp_initial\<lparr>currentStrategyIndex := 1\<rparr>, [TryingStrategy 0])"
    using assms(1) tryNextStrategy_fail_step [OF assms lt]
    by (simp add: mount_effect_def smp_initial_def)
  have rd: "SocialMediaPlayer U p (smp_initial\<lparr>currentStrategyIndex := 1\<rparr>) =
      Inr (smp_renderError U p (smp_initial\<lparr>currentStrategyIndex := 1\<rparr>))"
    by (rule render_without_embedUrl) (simp add: smp_initial_def js_truthy_def)
  have c: "index_effect_chain U p (smp_initial\<lparr>currentStrategyIndex := 1\<rparr>) =
      Inr (smp_initial\<lparr>currentStrategyIndex := 1\<rparr>
             \<lparr>currentStrategyIndex := length (embedStrategies config),
              error := Some (''Failed to load '' @ platform config @
                               '' video after trying all strategies''),
              isLoading := False\<rparr>,
            map TryingStrategy
              [currentStrategyIndex (smp_initial\<lparr>currentStrategyIndex := 1\<rparr>)
                 ..< length (embedStrategies config)] @
            call_onError p (''Failed to load '' @ platform config @
                            '' video after trying all strategies''))"
    using False
    by (intro index_effect_chain_all_fail [OF assms])
       (simp_all add: Suc_leI smp_initial_def js_truthy_def)
  show ?thesis
    using m c rd False
    by (simp add: smp_mount_def after_update_def smp_initial_def call_onError_def
          upt_conv_Cons Let_def)
qed

theorem all_strategies_fail_chain_witness:
  "smp_mount example_utils (example_smp_props ''https://instagram.com/p/1'') =
     Inr (smp_initial\<lparr>currentStrategyIndex := 2,
            error := Some ''Failed to load Instagram video after trying all strategies'',
            isLoading := False\<rparr>,
          [TryingStrategy 0, TryingStrategy 1,
           OnError ''Failed to load Instagram video after trying all strategies''])"
proof -
  let ?p = "example_smp_props ''https://instagram.com/p/1''"
  have cfg: "getSocialMediaConfig example_utils (url ?p) = Some instagram_config"
    by (simp add: example_utils_def example_smp_props_def)
  have fail: "\<forall>st\<in>set (embedStrategies instagram_config). \<not> js_truthy (getEmbedUrl st (url ?p))"
    by (simp add: instagram_config_def js_truthy_def)
  have l: "length (embedStrategies instagram_config) = 2" "platform instagram_config = ''Instagram''"
      "onError ?p"
    by (simp_all add: instagram_config_def example_smp_props_def)
  have u: "[0..<2] = [0, 1]" by (simp add: upt_conv_Cons)
  from all_strategies_fail_chain [OF cfg fail] l u show ?thesis by simp
qed

text \<open>
  Claim C6. \<open>handleManualRetry\<close> sets the strategy index to 0, clears the error and
  adds one to the manual retry counter. Whenever the error view with the retry
  affordance is rendered, the retry button is shown exactly when that counter is
  below \<open>maxRetries\<close>, and the max-retries notice exactly when it is not.
\<close>

theorem manual_retry_affordance:
  "currentStrategyIndex (handleManualRetry s) = 0 \<and>
   error (handleManualRetry s) = None \<and>
   retryCount (handleManualRetry s) = retryCount s + 1 \<and>
   embedUrl (handleManualRetry s) = embedUrl s \<and>
   isLoading (handleManualRetry s) = isLoading s \<and>
   (\<forall>e t n b m. SocialMediaPlayer U p s = Inr (PlaybackFailedView e t n b m) \<longrightarrow>
      (b \<longleftrightarrow> retryCount s < maxRetries p) \<and> (m \<longleftrightarrow> maxRetries p \<le> retryCount s) \<and>
      (m \<longleftrightarrow> \<not> b))"
  by (auto simp: handleManualRetry_def SocialMediaPlayer_def smp_renderError_def
           split: option.splits sum.splits if_splits)

theorem manual_retry_affordance_witness:
  "smp_mount example_utils (example_smp_props ''https://instagram.com/p/1'') =
     Inr (smp_initial\<lparr>currentStrategyIndex := 2,
            error := Some ''Failed to load Instagram video after trying all strategies'',
            isLoading := False\<rparr>,
          [TryingStrategy 0, TryingStrategy 1,
           OnError ''Failed to load Instagram video after trying all strategies'']) \<and>
   SocialMediaPlayer example_utils (example_smp_props ''https://instagram.com/p/1'')
     (smp_initial\<lparr>currentStrategyIndex := 2,
        error := Some ''Failed to load Instagram video after trying all strategies'',
        isLoading := False\<rparr>) =
     Inr (PlaybackFailedView
            (Some ''Failed to load Instagram video after trying all strategies'') 3 2 True False) \<and>
   retryCount (smp_initial\<lparr>currentStrategyIndex := 2,
        error := Some ''Failed to load Instagram video after trying all strategies'',
        isLoading := False\<rparr>)
     < maxRetries (example_smp_props ''https://instagram.com/p/1'')"
proof -
  let ?p = "example_smp_props ''https://instagram.com/p/1''"
  let ?s = "smp_initial\<lparr>currentStrategyIndex := 2,
        error := Some ''Failed to load Instagram video after trying all strategies'',
        isLoading := False\<rparr>"
  have m: "smp_mount example_utils ?p =
     Inr (?s, [TryingStrategy 0, TryingStrategy 1,
           OnError ''Failed to load Instagram video after trying all strategies''])"
    by code_simp
  have v: "SocialMediaPlayer example_utils ?p ?s =
     Inr (PlaybackFailedView
            (Some ''Failed to load Instagram video after trying all strategies'') 3 2 True False)"
    by code_simp
  have "True \<longleftrightarrow> retryCount ?s < maxRetries ?p"
    using manual_retry_affordance [of ?s example_utils ?p] v by blast
  with m v show ?thesis by simp
qed

lemma render_no_config:
  "getSocialMediaConfig U (url p) = None \<Longrightarrow> SocialMediaPlayer U p s = Inr UnsupportedPlatformView"
  by (simp add: SocialMediaPlayer_def smp_renderError_def)

lemma index_effect_chain_no_config:
  "getSocialMediaConfig U (url p) = None \<Longrightarrow> index_effect_chain U p s = Inr (s, [])"
  by (subst index_effect_chain.simps) (simp add: index_effect_def render_no_config)

lemma after_update_no_config:
  "getSocialMediaConfig U (url p) = None \<Longrightarrow> after_update U p old (s, effs) = Inr (s, effs)"
  by (simp add: after_update_def index_effect_chain_no_config render_no_config)

lemma smp_step_no_config:
  assumes "getSocialMediaConfig U (url p) = None"
  shows "\<exists>s' effs. smp_step U p s ev = Inr (s', effs) \<and> embedUrl s' = embedUrl s \<and>
           set effs \<subseteq> {OnLoad, OnPlaybackStart}"
  using assms
  by (cases ev)
     (auto simp: smp_step_def handleLoadStart_def handleLoadEnd_def handleError_def
        handleHttpError_def handleManualRetry_def retryTimeout_callback_def
        after_update_no_config Let_def)

lemma smp_run_no_config:
  assumes "getSocialMediaConfig U (url p) = None"
  shows "\<exists>s' effs. smp_run U p r evs = Inr (s', snd r @ effs) \<and> embedUrl s' = embedUrl (fst r) \<and>
           set effs \<subseteq> {OnLoad, OnPlaybackStart}"
proof (induction evs arbitrary: r)
  case Nil
  show ?case by (cases r) simp
next
  case (Cons ev evs)
  obtain s1 e1 where st: "smp_step U p (fst r) ev = Inr (s1, e1)"
      "embedUrl s1 = embedUrl (fst r)" "set e1 \<subseteq> {OnLoad, OnPlaybackStart}"
    using smp_step_no_config [OF assms] by blast
  obtain s2 e2 where rn: "smp_run U p (s1, snd r @ e1) evs = Inr (s2, snd (s1, snd r @ e1) @ e2)"
      "embedUrl s2 = embedUrl (fst (s1, snd r @ e1))" "set e2 \<subseteq> {OnLoad, OnPlaybackStart}"
    using Cons.IH by blast
  show ?case
  proof (intro exI conjI)
    show "smp_run U p r (ev # evs) = Inr (s2, snd r @ (e1 @ e2))"
      using st rn by simp
    show "embedUrl s2 = embedUrl (fst r)" using st rn by simp
    show "set (e1 @ e2) \<subseteq> {OnLoad, OnPlaybackStart}" using st rn by simp
  qed
qed

lemma smp_mount_no_config:
  "getSocialMediaConfig U (url p) = None \<Longrightarrow>
   smp_mount U p =
     Inr (smp_initial\<lparr>error := Some ''Unsupported social media platform''\<rparr>,
          call_onError p ''Unsupported social media platform'')"
  by (simp add: smp_mount_def mount_effect_def after_update_no_config)

text \<open>
  Claim C8. If \<open>getSocialMediaConfig\<close> returns \<^verbatim>\<open>null\<close> for the url, mounting calls
  \<open>onError\<close> (when supplied) with exactly \<open>Unsupported social media platform\<close>. After
  mounting and any list of events the run has not thrown, the component renders the
  unsupported-platform view, \<open>embedUrl\<close> is still \<^verbatim>\<open>null\<close>, no strategy has been
  asked for a URL, and \<open>onError\<close> has been called with no other message.
\<close>

theorem unsupported_platform:
  assumes "getSocialMediaConfig U (url p) = None"
  shows "smp_mount U p =
           Inr (smp_initial\<lparr>error := Some ''Unsupported social media platform''\<rparr>,
                if onError p then [OnError ''Unsupported social media platform''] else []) \<and>
         (\<forall>evs. \<exists>s effs. smp_session U p evs = Inr (s, effs) \<and>
            SocialMediaPlayer U p s = Inr UnsupportedPlatformView \<and>
            embedUrl s = None \<and>
            (\<forall>m. OnError m \<in> set effs \<longrightarrow> m = ''Unsupported social media platform'') \<and>
            (\<forall>i. TryingStrategy i \<notin> set effs))"
proof (intro conjI allI)
  show "smp_mount U p =
           Inr (smp_initial\<lparr>error := Some ''Unsupported social media platform''\<rparr>,
                if onError p then [OnError ''Unsupported social media platform''] else [])"
    by (simp add: smp_mount_no_config [OF assms] call_onError_def)
next
  fix evs
  let ?r = "(smp_initial\<lparr>error := Some ''Unsupported social media platform''\<rparr>,
             call_onError p ''Unsupported social media platform'')"
  obtain s effs where r: "smp_run U p ?r evs = Inr (s, snd ?r @ effs)"
      "embedUrl s = embedUrl (fst ?r)" "set effs \<subseteq> {OnLoad, OnPlaybackStart}"
    using smp_run_no_config [OF assms] by blast
  have ss: "smp_session U p evs = Inr (s, snd ?r @ effs)"
    using r(1) by (simp add: smp_session_def smp_mount_no_config [OF assms])
  have v: "SocialMediaPlayer U p s = Inr UnsupportedPlatformView"
    by (rule render_no_config [OF assms])
  have e: "embedUrl s = None"
    using r(2) by (simp add: smp_initial_def)
  have o: "\<forall>m. OnError m \<in> set (snd ?r @ effs) \<longrightarrow>
             m = ''Unsupported social media platform''"
    using r(3) by (auto simp: call_onError_def)
  have t: "\<forall>i. TryingStrategy i \<notin> set (snd ?r @ effs)"
    using r(3) by (auto simp: call_onError_def)
  show "\<exists>s effs. smp_session U p evs = Inr (s, effs) \<and>
            SocialMediaPlayer U p s = Inr UnsupportedPlatformView \<and>
            embedUrl s = None \<and>
            (\<forall>m. OnError m \<in> set effs \<longrightarrow> m = ''Unsupported social media platform'') \<and>
            (\<forall>i. TryingStrategy i \<notin> set effs)"
    using ss v e o t by blast
qed

theorem unsupported_platform_witness:
  "getSocialMediaConfig example_utils (url (example_smp_props ''https://youtu.be/abc'')) = None \<and>
   smp_mount example_utils (example_smp_props ''https://youtu.be/abc'') =
     Inr (smp_initial\<lparr>error := Some ''Unsupported social media platform''\<rparr>,
          [OnError ''Unsupported social media platform''])"
proof -
  have h: "getSocialMediaConfig example_utils (url (example_smp_props ''https://youtu.be/abc'')) = None"
    by (simp add: example_utils_def example_smp_props_def)
  show ?thesis
    using h unsupported_platform [OF h] by (simp add: example_smp_props_def)
qed

text \<open>
  With a configuration the render can throw. For the TikTok link the first strategy
  yields a URL and the second none: after a load error and the retry timer the
  index effect moves the index to 2 while the old embed URL is still stored, and
  the render that follows reads \<^verbatim>\<open>strategy.headers\<close> of \<^verbatim>\<open>undefined\<close>.
\<close>

lemma stale_embedUrl_render_throws:
  "smp_session example_utils (example_smp_props ''https://tiktok.com/@u/video/1'') [] =
     Inr (smp_initial\<lparr>embedUrl := Some ''https://tiktok.com/@u/video/1''\<rparr>, [TryingStrategy 0]) \<and>
   smp_session example_utils (example_smp_props ''https://tiktok.com/@u/video/1'')
     [LoadError None] =
     Inr (smp_initial\<lparr>embedUrl := Some ''https://tiktok.com/@u/video/1'',
            retryTimeoutRef := True\<rparr>, [TryingStrategy 0]) \<and>
   smp_session example_utils (example_smp_props ''https://tiktok.com/@u/video/1'')
     [LoadError None, RetryTimeout] = Inl TypeError"
  by code_simp

end
